theory Spec2Isabelle
  imports Main "HOL-Library.Sublist"
begin

section \<open>Data model\<close>

text \<open>
  A Turn is the Python dict \<^verbatim>\<open>{"role": ..., "content": ...}\<close>. Both entries are strings in
  the source, so both fields are strings here. A Python \<^verbatim>\<open>str\<close> is modelled as the list of its
  code points, each a \<^typ>\<open>char\<close> (code points below 256).
\<close>

record turn =
  role :: string
  content :: string

text \<open>
  The exceptions of the \<^verbatim>\<open>try\<close> block of \<^verbatim>\<open>generate_response\<close>, all instances of
  \<^verbatim>\<open>Exception\<close>, which is the class the handler \<^verbatim>\<open>except Exception as e\<close> names: an
  error of \<^verbatim>\<open>openai.ChatCompletion.create\<close> (network, authentication, rate limit, ...),
  carried with its message; the \<^verbatim>\<open>IndexError\<close> of \<^verbatim>\<open>response.choices[0]\<close> on an empty
  list of choices; the \<^verbatim>\<open>AttributeError\<close> of \<^verbatim>\<open>.strip()\<close> on a content that is
  \<^verbatim>\<open>None\<close>. Signals of the interpreter that are not instances of \<^verbatim>\<open>Exception\<close>
  (\<^verbatim>\<open>KeyboardInterrupt\<close>, \<^verbatim>\<open>SystemExit\<close>) are not errors of the call and are not
  modelled.
\<close>

datatype py_exception = ServiceError string | IndexError | AttributeError

text \<open>\<^verbatim>\<open>str(e)\<close>, which the f-strings of the handler interpolate.\<close>

fun str :: "py_exception \<Rightarrow> string" where
  "str (ServiceError msg) = msg"
| "str IndexError = ''list index out of range''"
| "str AttributeError =
     CHR 0x27 # ''NoneType'' @ CHR 0x27 # '' object has no attribute '' @ CHR 0x27 # ''strip'' @ [CHR 0x27]"

text \<open>
  The response of the completion service as the code reads it:
  \<^verbatim>\<open>response.choices[0].message.content\<close>. The content of a message may be absent
  (\<^verbatim>\<open>None\<close>).
\<close>

datatype completion_message = CompletionMessage (message_content: "string option")

datatype choice = Choice (message: completion_message)

datatype response = Response (choices: "choice list")

text \<open>
  The completion service itself, \<^verbatim>\<open>openai.ChatCompletion.create\<close>, is outside the repository:
  it is a parameter. It reads the module-level credential \<^verbatim>\<open>openai.api_key\<close> and the message
  list it is given (the model name and the temperature are constants of the call), and either
  raises or returns a response.
\<close>

type_synonym completion_service = "string option \<Rightarrow> turn list \<Rightarrow> py_exception + response"

subsection \<open>The store\<close>

text \<open>
  Python lists are mutable objects that are passed by reference: the session's Conversation
  is one list object, appended to in place and handed to \<^verbatim>\<open>generate_response\<close>, which builds
  a second list. The state therefore holds a store of list objects, addressed by references
  that are allocated in increasing order, next to the other mutable state of the process:
  the credential \<^verbatim>\<open>openai.api_key\<close>, the lines written to the logger, the message lists
  sent to the completion service so far, and the entry \<^verbatim>\<open>messages\<close> of
  \<^verbatim>\<open>st.session_state\<close> (a reference to a list, or absent).
\<close>

type_synonym ref = nat

record state =
  list_objs :: "ref \<Rightarrow> turn list"
  next_ref :: ref
  api_key :: "string option"
  log :: "string list"
  sent :: "turn list list"
  session_messages :: "ref option"

definition new_list :: "turn list \<Rightarrow> state \<Rightarrow> ref \<times> state" where
  "new_list xs s =
     (next_ref s, s\<lparr>list_objs := (list_objs s)(next_ref s := xs), next_ref := Suc (next_ref s)\<rparr>)"

definition extend_list :: "ref \<Rightarrow> turn list \<Rightarrow> state \<Rightarrow> state" where
  "extend_list r xs s = s\<lparr>list_objs := (list_objs s)(r := list_objs s r @ xs)\<rparr>"

definition append_turn :: "ref \<Rightarrow> turn \<Rightarrow> state \<Rightarrow> state" where
  "append_turn r t s = s\<lparr>list_objs := (list_objs s)(r := list_objs s r @ [t])\<rparr>"

section \<open>Response generator\<close>

definition system_turn :: turn where
  "system_turn = \<lparr>role = ''system'', content =
     ''You are a friendly portfolio assistant who answers questions about my work, experience, and projects.''\<rparr>"

text \<open>
  \<^verbatim>\<open>str.strip()\<close> without argument removes the leading and the trailing whitespace. The
  whitespace code points below 256 are the ones of \<^verbatim>\<open>str.isspace\<close>.
\<close>

definition isspace :: "char \<Rightarrow> bool" where
  "isspace c \<longleftrightarrow> (of_char c :: nat) \<in> {9, 10, 11, 12, 13, 28, 29, 30, 31, 32, 133, 160}"

definition strip :: "string \<Rightarrow> string" where
  "strip s = rev (dropWhile isspace (rev (dropWhile isspace s)))"

text \<open>Lines 63 to 67: the message list of the request, a fresh list object.\<close>

definition build_messages :: "string \<Rightarrow> ref \<Rightarrow> state \<Rightarrow> ref \<times> state" where
  "build_messages prompt conversation_history s =
     (let (messages, s1) = new_list [system_turn] s;
          s2 = extend_list messages (list_objs s1 conversation_history) s1;
          s3 = append_turn messages \<lparr>role = ''user'', content = prompt\<rparr> s2
      in (messages, s3))"

text \<open>Line 76: the first choice's content, stripped; each step may raise.\<close>

definition first_choice_text :: "response \<Rightarrow> py_exception + string" where
  "first_choice_text r =
     (case choices r of
        [] \<Rightarrow> Inl IndexError
      | c # _ \<Rightarrow>
          (case message_content (message c) of
             None \<Rightarrow> Inl AttributeError
           | Some text \<Rightarrow> Inr (strip text)))"

text \<open>Lines 69 to 79: the call, and the handler that turns every exception into text.\<close>

definition generate_response ::
  "completion_service \<Rightarrow> string \<Rightarrow> ref \<Rightarrow> state \<Rightarrow> string \<times> state" where
  "generate_response create prompt conversation_history s =
     (let (messages, s3) = build_messages prompt conversation_history s;
          request = list_objs s3 messages;
          s4 = s3\<lparr>sent := sent s3 @ [request]\<rparr>;
          outcome = (case create (api_key s4) request of
                       Inl e \<Rightarrow> Inl e
                     | Inr r \<Rightarrow> first_choice_text r)
      in (case outcome of
            Inr text \<Rightarrow> (text, s4)
          | Inl e \<Rightarrow>
              (''Error: '' @ str e,
               s4\<lparr>log := log s4 @ [''Error generating response: '' @ str e]\<rparr>)))"

section \<open>Credential resolution\<close>

text \<open>
  The environment (\<^verbatim>\<open>os.environ\<close> after \<^verbatim>\<open>load_dotenv()\<close>) is a dictionary of strings. The
  secret store \<^verbatim>\<open>st.secrets\<close> belongs to the framework; as the comment above line 24 says, it
  has top-level entries and tables such as \<^verbatim>\<open>[general]\<close>: a flat store of values and a nested
  store of named sections.
\<close>

record secret_store =
  flat :: "string \<rightharpoonup> string"
  nested :: "string \<rightharpoonup> (string \<rightharpoonup> string)"

text \<open>What a run of the script puts on the page, in the order of the calls.\<close>

record figure =
  fig_xs :: "int list"
  fig_ys :: "int list"
  marker :: string
  xlabel :: string
  ylabel :: string
  fig_title :: string

datatype ui =
    StError string
  | StMarkdown string
  | StHtml string
  | StTitle string
  | StWrite string
  | StSubheader string
  | StRadio string "string list"
  | StChatInput string
  | StSpinner string
  | StPyplot figure
  | StBarChart "(string \<times> int) list"
  | StImage string string
  | StVideo string
  | Sidebar "ui list"

definition no_key_message :: string where
  "no_key_message =
     ''No OpenAI API key provided. Please set it in your .env file or in your Streamlit Cloud secrets.''"

text \<open>
  Lines 24 to 31. In the last branch nothing is assigned: \<^verbatim>\<open>openai.api_key\<close> keeps the value
  it had, and \<^verbatim>\<open>st.error\<close> puts a banner on the page and returns.
\<close>

definition resolve_api_key ::
  "(string \<rightharpoonup> string) \<Rightarrow> secret_store \<Rightarrow> state \<Rightarrow> ui list \<times> state" where
  "resolve_api_key environ secrets s =
     (if environ ''OPENAI_API_KEY'' \<noteq> None then
        ([], s\<lparr>api_key := Some (the (environ ''OPENAI_API_KEY''))\<rparr>)
      else if flat secrets ''OPENAI_API_KEY'' \<noteq> None then
        ([], s\<lparr>api_key := Some (the (flat secrets ''OPENAI_API_KEY''))\<rparr>)
      else if nested secrets ''general'' \<noteq> None
              \<and> the (nested secrets ''general'') ''OPENAI_API_KEY'' \<noteq> None then
        ([], s\<lparr>api_key := Some (the (the (nested secrets ''general'') ''OPENAI_API_KEY''))\<rparr>)
      else ([StError no_key_message], s))"

text \<open>
  The specification's reading of the same resolution: an ordered list of providers, tried in
  sequence, the first success deciding.
\<close>

fun first_match :: "string option list \<Rightarrow> string option" where
  "first_match [] = None"
| "first_match (None # providers) = first_match providers"
| "first_match (Some v # providers) = Some v"

definition providers :: "(string \<rightharpoonup> string) \<Rightarrow> secret_store \<Rightarrow> string option list" where
  "providers environ secrets =
     [environ ''OPENAI_API_KEY'',
      flat secrets ''OPENAI_API_KEY'',
      (case nested secrets ''general'' of
         None \<Rightarrow> None
       | Some section \<Rightarrow> section ''OPENAI_API_KEY'')]"

section \<open>The page\<close>

definition custom_css :: string where
  "custom_css = concat (map (\<lambda>line. line @ [CHR 0x0A])
     [[],
      ''<style>'',
      ''.user-message {'',
      ''    background-color: #e6f7ff;'',
      ''    padding: 10px;'',
      ''    border-radius: 10px;'',
      ''    margin-bottom: 10px;'',
      ''}'',
      ''.assistant-message {'',
      ''    background-color: #f0f2f6;'',
      ''    padding: 10px;'',
      ''    border-radius: 10px;'',
      ''    margin-bottom: 10px;'',
      ''}'',
      ''.stTextInput>div>div>input {'',
      ''    border-radius: 10px;'',
      ''}'',
      ''</style>''])"

fun display_chat_messages :: "turn list \<Rightarrow> ui list" where
  "display_chat_messages [] = []"
| "display_chat_messages (msg # messages) =
     (if role msg = ''user'' then
        [StHtml (''<div class='user-message'><b>You:</b> '' @ content msg @ ''</div>'')]
      else if role msg = ''assistant'' then
        [StHtml (''<div class='assistant-message'><b>Assistant:</b> '' @ content msg @ ''</div>'')]
      else [])
     @ display_chat_messages messages"

definition sidebar :: ui where
  "sidebar = Sidebar
     [StTitle ''Navigation'',
      StRadio ''Select Section:''
        [''Chatbot'', ''Portfolio Navigation'', ''FAQ & Experience'', ''Visuals & Multimedia'']]"

subsection \<open>Chatbot section\<close>

definition greeting :: turn where
  "greeting = \<lparr>role = ''assistant'',
                content = ''Hi, I'm your portfolio assistant! How can I help you today?''\<rparr>"

text \<open>
  Lines 105 to 108. The result is the reference that \<^verbatim>\<open>st.session_state.messages\<close> holds
  after the block, with the state.
\<close>

definition init_messages :: "state \<Rightarrow> ref \<times> state" where
  "init_messages s =
     (case session_messages s of
        None \<Rightarrow> (let (r, s1) = new_list [greeting] s in (r, s1\<lparr>session_messages := Some r\<rparr>))
      | Some r \<Rightarrow> (r, s))"

text \<open>
  Lines 117 to 120, with \<open>r\<close> the list that \<^verbatim>\<open>st.session_state.messages\<close> refers to: the
  user's turn is appended first, then the same list is passed as the history.
\<close>

definition submit :: "completion_service \<Rightarrow> string \<Rightarrow> ref \<Rightarrow> state \<Rightarrow> state" where
  "submit create user_input r s =
     (let s1 = append_turn r \<lparr>role = ''user'', content = user_input\<rparr> s;
          (response, s2) = generate_response create user_input r s1
      in append_turn r \<lparr>role = ''assistant'', content = response\<rparr> s2)"

text \<open>
  Lines 101 to 120. \<^verbatim>\<open>st.chat_input\<close> returns \<^verbatim>\<open>None\<close> or the submitted text;
  \<^verbatim>\<open>if user_input:\<close> holds for a text that is not empty.
\<close>

definition chatbot_section ::
  "completion_service \<Rightarrow> string option \<Rightarrow> state \<Rightarrow> ui list \<times> state" where
  "chatbot_section create user_input s =
     (let (r, s1) = init_messages s;
          page = [StTitle ''Interactive Portfolio Chatbot'',
                  StWrite ''Ask me anything about my projects, background, or data science in general!'']
                 @ display_chat_messages (list_objs s1 r)
                 @ [StChatInput ''Type your message here:'']
      in (case user_input of
            None \<Rightarrow> (page, s1)
          | Some text \<Rightarrow>
              if text \<noteq> [] then (page @ [StSpinner ''Thinking...''], submit create text r s1)
              else (page, s1)))"

subsection \<open>Static sections\<close>

record project_details =
  description :: string
  link :: string

definition projects :: "(string \<times> project_details) list" where
  "projects =
     [(''Project Alpha'',
       \<lparr>description = ''A machine learning project using neural networks to predict stock prices.'',
        link = ''https://github.com/yourusername/project-alpha''\<rparr>),
      (''Project Beta'',
       \<lparr>description = ''A data visualization dashboard analyzing social media trends.'',
        link = ''https://github.com/yourusername/project-beta''\<rparr>),
      (''Project Gamma'',
       \<lparr>description = ''An NLP project for sentiment analysis on customer feedback.'',
        link = ''https://github.com/yourusername/project-gamma''\<rparr>)]"

definition portfolio_section :: "ui list" where
  "portfolio_section =
     [StTitle ''My Portfolio Projects'', StWrite ''Explore some of the projects I've worked on:'']
     @ concat (map (\<lambda>(project, details).
         [StSubheader project,
          StWrite (description details),
          StMarkdown (''[View Project]('' @ link details @ '')''),
          StMarkdown ''---'']) projects)"

definition faq :: "(string \<times> string) list" where
  "faq =
     [(''What is your background in data science?'',
       ''I hold a Master's in Data Science and have over 5 years of experience in the field.''),
      (''Which programming languages do you use?'',
       ''I'm proficient in Python, R, SQL, and JavaScript.''),
      (''How do you approach solving data problems?'',
       ''I follow a systematic process: problem understanding, data collection/cleaning, exploratory data analysis, modeling, and insight communication.'')]"

definition faq_section :: "ui list" where
  "faq_section =
     [StTitle ''FAQ & My Experience'',
      StWrite ''Below are some frequently asked questions and highlights from my experience.'']
     @ concat (map (\<lambda>(question, answer).
         [StMarkdown (''**Q: '' @ question @ ''**''),
          StMarkdown (''A: '' @ answer),
          StMarkdown ''---'']) faq)
     @ [StSubheader ''Experience Timeline'',
        StWrite ''A quick look at my project milestones over the years.'',
        StPyplot \<lparr>fig_xs = [2018, 2019, 2020, 2021, 2022], fig_ys = [2, 3, 5, 4, 6], marker = ''o'',
                  xlabel = ''Year'', ylabel = ''Projects Completed'',
                  fig_title = ''Experience Timeline''\<rparr>]"

definition visuals_section :: "ui list" where
  "visuals_section =
     [StTitle ''Interactive Visuals & Multimedia'',
      StWrite ''Enjoy some interactive charts, images, and videos!'',
      StSubheader ''Project Categories'',
      StBarChart [(''ML'', 4), (''Visualization'', 3), (''NLP'', 5), (''Data Engineering'', 2)],
      StSubheader ''My Data Science Journey'',
      StImage ''https://via.placeholder.com/600x300.png?text=Data+Science+Journey''
              ''Visualizing my path in data science'',
      StSubheader ''Introduction Video'',
      StVideo ''https://www.youtube.com/watch?v=dQw4w9WgXcQ'']"

subsection \<open>One run of the script\<close>

text \<open>
  Every interaction runs the script from top to bottom against the same state. What a run
  reads from outside: the environment, the secret store, the section selected in the sidebar,
  what the chat input returns, and how the completion service answers during this run.
\<close>

record inputs =
  environ :: "string \<rightharpoonup> string"
  secrets :: secret_store
  app_mode :: string
  user_input :: "string option"
  create :: completion_service

text \<open>Everything below line 31: the style sheet, the sidebar and the selected section.\<close>

definition page_body :: "inputs \<Rightarrow> state \<Rightarrow> ui list \<times> state" where
  "page_body i s =
     (let (section, s') =
            (if app_mode i = ''Chatbot'' then chatbot_section (create i) (user_input i) s
             else if app_mode i = ''Portfolio Navigation'' then (portfolio_section, s)
             else if app_mode i = ''FAQ & Experience'' then (faq_section, s)
             else if app_mode i = ''Visuals & Multimedia'' then (visuals_section, s)
             else ([], s))
      in ([StHtml custom_css, sidebar] @ section, s'))"

definition run_script :: "inputs \<Rightarrow> state \<Rightarrow> ui list \<times> state" where
  "run_script i s =
     (let (banner, s1) = resolve_api_key (environ i) (secrets i) s;
          (page, s2) = page_body i s1
      in (banner @ page, s2))"

fun run_many :: "inputs list \<Rightarrow> state \<Rightarrow> state" where
  "run_many [] s = s"
| "run_many (i # is) s = run_many is (snd (run_script i s))"

text \<open>The Conversation of the session: the list that \<^verbatim>\<open>st.session_state.messages\<close> refers to.\<close>

definition conversation :: "state \<Rightarrow> turn list" where
  "conversation s = (case session_messages s of None \<Rightarrow> [] | Some r \<Rightarrow> list_objs s r)"

section \<open>Auxiliary notions and example inputs\<close>

text \<open>
  A reference held by the session refers to a list object that exists. Python never holds a
  reference to an object that was not allocated; in the store this is a condition on the
  state.
\<close>

definition session_allocated :: "state \<Rightarrow> bool" where
  "session_allocated s = (case session_messages s of None \<Rightarrow> True | Some r \<Rightarrow> r < next_ref s)"

text \<open>
  What a stored Conversation looks like: the seeded greeting first, then turns of the user
  and of the assistant only.
\<close>

definition stored_ok :: "turn list \<Rightarrow> bool" where
  "stored_ok c =
     (case c of
        [] \<Rightarrow> False
      | t # rest \<Rightarrow>
          t = greeting \<and> list_all (\<lambda>t. role t = ''user'' \<or> role t = ''assistant'') rest)"

definition session_ok :: "state \<Rightarrow> bool" where
  "session_ok s =
     (case session_messages s of
        None \<Rightarrow> True
      | Some r \<Rightarrow> r < next_ref s \<and> stored_ok (list_objs s r))"

text \<open>
  A process that has just started with a new session, and the same after the Conversation
  was seeded.
\<close>

definition fresh :: state where
  "fresh = \<lparr>list_objs = (\<lambda>_. []), next_ref = 0, api_key = None, log = [], sent = [],
             session_messages = None\<rparr>"

definition seeded :: state where
  "seeded = snd (init_messages fresh)"

text \<open>Stubs of the completion service: one that answers, one that pads its answer, one that raises.\<close>

definition hi_there_stub :: completion_service where
  "hi_there_stub = (\<lambda>key request. Inr (Response [Choice (CompletionMessage (Some ''Hi there''))]))"

definition padded_stub :: completion_service where
  "padded_stub =
     (\<lambda>key request. Inr (Response [Choice (CompletionMessage (Some (''  Hi there '' @ [CHR 0x0A])))]))"

definition failing_stub :: "py_exception \<Rightarrow> completion_service" where
  "failing_stub e = (\<lambda>key request. Inl e)"

text \<open>Runs of the script: a visit of the chatbot page, and the submission of a message.\<close>

definition visit :: inputs where
  "visit = \<lparr>environ = Map.empty, secrets = \<lparr>flat = Map.empty, nested = Map.empty\<rparr>,
            app_mode = ''Chatbot'', user_input = None, create = hi_there_stub\<rparr>"

definition hello :: inputs where
  "hello = visit\<lparr>user_input := Some ''Hello''\<rparr>"

text \<open>The session after a visit and one submitted message.\<close>

definition chatted :: state where
  "chatted = run_many [visit, hello] fresh"




section \<open>Properties\<close>

subsection \<open>The response generator, step by step\<close>

lemma build_messages_eq:
  "h < next_ref s \<Longrightarrow>
   build_messages p h s =
     (next_ref s,
      s\<lparr>list_objs := (list_objs s)(next_ref s :=
           system_turn # list_objs s h @ [\<lparr>role = ''user'', content = p\<rparr>]),
        next_ref := Suc (next_ref s)\<rparr>)"
  by (auto simp: build_messages_def new_list_def extend_list_def append_turn_def)

lemma generate_response_fst:
  "h < next_ref s \<Longrightarrow>
   fst (generate_response svc p h s) =
     (case svc (api_key s) (system_turn # list_objs s h @ [\<lparr>role = ''user'', content = p\<rparr>]) of
        Inl e \<Rightarrow> ''Error: '' @ str e
      | Inr r \<Rightarrow> (case first_choice_text r of
                    Inl e \<Rightarrow> ''Error: '' @ str e
                  | Inr t \<Rightarrow> t))"
  by (simp add: generate_response_def build_messages_eq Let_def split: sum.splits)

lemma generate_response_list_objs:
  "h < next_ref s \<Longrightarrow>
   list_objs (snd (generate_response svc p h s)) =
     (list_objs s)(next_ref s := system_turn # list_objs s h @ [\<lparr>role = ''user'', content = p\<rparr>])"
  by (simp add: generate_response_def build_messages_eq Let_def split: sum.splits)

lemma generate_response_sent:
  "h < next_ref s \<Longrightarrow>
   sent (snd (generate_response svc p h s)) =
     sent s @ [system_turn # list_objs s h @ [\<lparr>role = ''user'', content = p\<rparr>]]"
  by (simp add: generate_response_def build_messages_eq Let_def split: sum.splits)

lemma generate_response_next_ref:
  "next_ref (snd (generate_response svc p h s)) = Suc (next_ref s)"
  by (simp add: generate_response_def build_messages_def new_list_def extend_list_def Let_def
      append_turn_def split: sum.splits)

lemma generate_response_session:
  "session_messages (snd (generate_response svc p h s)) = session_messages s"
  by (simp add: generate_response_def build_messages_def new_list_def extend_list_def Let_def
      append_turn_def split: sum.splits)


subsection \<open>The session store, step by step\<close>

lemma init_messages_session:
  "session_messages (snd (init_messages s)) = Some (fst (init_messages s))"
  by (simp add: init_messages_def new_list_def split: option.splits)

lemma init_messages_allocated:
  "session_allocated s \<Longrightarrow> fst (init_messages s) < next_ref (snd (init_messages s))"
  by (simp add: init_messages_def new_list_def session_allocated_def split: option.splits)

lemma init_messages_conversation:
  "list_objs (snd (init_messages s)) (fst (init_messages s)) = conversation (snd (init_messages s))"
  by (simp add: conversation_def init_messages_session)

lemma init_messages_sent: "sent (snd (init_messages s)) = sent s"
  by (simp add: init_messages_def new_list_def split: option.splits)


lemma init_messages_existing: "session_messages s = Some r \<Longrightarrow> init_messages s = (r, s)"
  by (simp add: init_messages_def)

lemma init_messages_first:
  "session_messages s = None \<Longrightarrow> conversation (snd (init_messages s)) = [greeting]"
  by (simp add: init_messages_def new_list_def conversation_def)

lemma submit_list_objs:
  "r < next_ref s \<Longrightarrow>
   list_objs (submit svc S r s) =
     (list_objs s)
       (next_ref s := system_turn # list_objs s r
            @ [\<lparr>role = ''user'', content = S\<rparr>, \<lparr>role = ''user'', content = S\<rparr>],
        r := list_objs s r
            @ [\<lparr>role = ''user'', content = S\<rparr>,
               \<lparr>role = ''assistant'',
                content = fst (generate_response svc S r
                                 (append_turn r \<lparr>role = ''user'', content = S\<rparr> s))\<rparr>])"
proof -
  assume r: "r < next_ref s"
  let ?s1 = "append_turn r \<lparr>role = ''user'', content = S\<rparr> s"
  have r1: "r < next_ref ?s1" using r by (simp add: append_turn_def)
  have neq: "r \<noteq> next_ref s" using r by simp
  show ?thesis
    using neq
    by (simp add: submit_def Let_def split_beta append_turn_def [of r _ "snd _"]
        generate_response_list_objs [OF r1])
      (auto simp: append_turn_def fun_eq_iff)
qed

lemma submit_sent:
  "r < next_ref s \<Longrightarrow>
   sent (submit svc S r s) =
     sent s @ [system_turn # list_objs s r
                 @ [\<lparr>role = ''user'', content = S\<rparr>, \<lparr>role = ''user'', content = S\<rparr>]]"
proof -
  assume r: "r < next_ref s"
  let ?s1 = "append_turn r \<lparr>role = ''user'', content = S\<rparr> s"
  have r1: "r < next_ref ?s1" using r by (simp add: append_turn_def)
  show ?thesis
    by (simp add: submit_def Let_def split_beta append_turn_def [of r _ "snd _"]
        generate_response_sent [OF r1])
      (simp add: append_turn_def)
qed

lemma submit_session: "session_messages (submit svc S r s) = session_messages s"
  by (simp add: submit_def Let_def split_beta append_turn_def [of r _ "snd _"]
      generate_response_session)
    (simp add: append_turn_def)

lemma submit_next_ref: "next_ref (submit svc S r s) = Suc (next_ref s)"
  by (simp add: submit_def Let_def split_beta append_turn_def [of r _ "snd _"]
      generate_response_next_ref)
    (simp add: append_turn_def)


lemma chatbot_section_submit:
  "S \<noteq> [] \<Longrightarrow>
   snd (chatbot_section svc (Some S) s) =
     submit svc S (fst (init_messages s)) (snd (init_messages s))"
  by (simp add: chatbot_section_def Let_def split_beta)

lemma chatbot_section_idle:
  "inp = None \<or> inp = Some [] \<Longrightarrow> snd (chatbot_section svc inp s) = snd (init_messages s)"
  by (auto simp: chatbot_section_def Let_def split_beta)


lemma chatbot_section_conversation:
  assumes "session_allocated s" and "S \<noteq> []"
  shows "conversation (snd (chatbot_section svc (Some S) s)) =
           conversation (snd (init_messages s))
             @ [\<lparr>role = ''user'', content = S\<rparr>,
                \<lparr>role = ''assistant'',
                 content = fst (generate_response svc S (fst (init_messages s))
                    (append_turn (fst (init_messages s)) \<lparr>role = ''user'', content = S\<rparr>
                       (snd (init_messages s))))\<rparr>]"
proof -
  let ?r = "fst (init_messages s)" and ?s1 = "snd (init_messages s)"
  have r: "?r < next_ref ?s1" using assms(1) by (rule init_messages_allocated)
  have "session_messages (submit svc S ?r ?s1) = Some ?r"
    by (simp add: submit_session init_messages_session)
  then have "conversation (submit svc S ?r ?s1) = list_objs (submit svc S ?r ?s1) ?r"
    by (simp add: conversation_def)
  then show ?thesis
    using assms(2)
    by (simp add: chatbot_section_submit submit_list_objs [OF r] init_messages_conversation)
qed

subsection \<open>The script, step by step\<close>

lemma resolve_api_key_spec:
  "resolve_api_key env sec s =
     (case first_match (providers env sec) of
        Some v \<Rightarrow> ([], s\<lparr>api_key := Some v\<rparr>)
      | None \<Rightarrow> ([StError no_key_message], s))"
proof (cases "env ''OPENAI_API_KEY''")
  case (Some v)
  then show ?thesis by (simp add: resolve_api_key_def providers_def)
next
  case env_none: None
  show ?thesis
  proof (cases "flat sec ''OPENAI_API_KEY''")
    case (Some v)
    with env_none show ?thesis by (simp add: resolve_api_key_def providers_def)
  next
    case flat_none: None
    show ?thesis
    proof (cases "nested sec ''general''")
      case None
      with env_none flat_none show ?thesis by (simp add: resolve_api_key_def providers_def)
    next
      case (Some general)
      with env_none flat_none show ?thesis
        by (cases "general ''OPENAI_API_KEY''") (simp_all add: resolve_api_key_def providers_def)
    qed
  qed
qed

lemma resolve_api_key_state:
  "\<exists>k. snd (resolve_api_key env sec s) = s\<lparr>api_key := k\<rparr>"
proof (cases "first_match (providers env sec)")
  case None
  then have "snd (resolve_api_key env sec s) = s\<lparr>api_key := api_key s\<rparr>"
    by (simp add: resolve_api_key_spec)
  then show ?thesis by blast
next
  case (Some v)
  then have "snd (resolve_api_key env sec s) = s\<lparr>api_key := Some v\<rparr>"
    by (simp add: resolve_api_key_spec)
  then show ?thesis by blast
qed

lemma page_body_snd:
  "snd (page_body i s) =
     (if app_mode i = ''Chatbot'' then snd (chatbot_section (create i) (user_input i) s) else s)"
  by (simp add: page_body_def Let_def split_beta)

lemma run_script_snd:
  "snd (run_script i s) = snd (page_body i (snd (resolve_api_key (environ i) (secrets i) s)))"
  by (simp add: run_script_def Let_def split_beta)


lemma conversation_api_key: "conversation (s\<lparr>api_key := k\<rparr>) = conversation s"
  by (simp add: conversation_def split: option.splits)

lemma run_script_conversation_idle:
  "conversation (snd (run_script (i\<lparr>user_input := None\<rparr>) s)) =
     (if app_mode i = ''Chatbot'' \<and> session_messages s = None then [greeting]
      else conversation s)"
proof -
  obtain k where k: "snd (resolve_api_key (environ i) (secrets i) s) = s\<lparr>api_key := k\<rparr>"
    using resolve_api_key_state by blast
  show ?thesis
  proof (cases "session_messages s")
    case None
    then show ?thesis
      by (simp add: run_script_snd page_body_snd k chatbot_section_idle init_messages_first
          conversation_api_key)
  next
    case (Some r)
    then show ?thesis
      by (simp add: run_script_snd page_body_snd k chatbot_section_idle init_messages_existing
          conversation_api_key)
  qed
qed

subsection \<open>Whitespace\<close>

lemma strip_decompose:
  "t = takeWhile isspace t @ strip t @ rev (takeWhile isspace (rev (dropWhile isspace t)))"
proof -
  let ?d = "dropWhile isspace t"
  have "rev ?d = takeWhile isspace (rev ?d) @ dropWhile isspace (rev ?d)"
    by (rule takeWhile_dropWhile_id [symmetric])
  then have "rev (rev ?d) = rev (takeWhile isspace (rev ?d) @ dropWhile isspace (rev ?d))"
    by (rule arg_cong)
  then have "?d = strip t @ rev (takeWhile isspace (rev ?d))"
    unfolding strip_def rev_append rev_rev_ident .
  moreover have "t = takeWhile isspace t @ ?d"
    by (rule takeWhile_dropWhile_id [symmetric])
  ultimately show ?thesis by simp
qed

lemma strip_ends:
  assumes "strip t \<noteq> []"
  shows "\<not> isspace (hd (strip t)) \<and> \<not> isspace (last (strip t))"
proof -
  let ?d = "dropWhile isspace t"
  let ?e = "dropWhile isspace (rev ?d)"
  have e: "?e \<noteq> []" using assms by (simp add: strip_def)
  then have "\<not> isspace (hd ?e)" by (rule hd_dropWhile)
  then have l: "\<not> isspace (last (strip t))" using e by (simp add: strip_def last_rev)
  have d: "?d \<noteq> []"
  proof
    assume "?d = []"
    then have "?e = []" by (simp only: rev.simps dropWhile.simps)
    with e show False by contradiction
  qed
  then have nd: "\<not> isspace (hd ?d)" by (rule hd_dropWhile)
  have "t = takeWhile isspace t @ strip t @ rev (takeWhile isspace (rev ?d))"
    by (rule strip_decompose)
  then have "?d = strip t @ rev (takeWhile isspace (rev ?d))"
    using takeWhile_dropWhile_id [of isspace t] by (metis same_append_eq)
  then have "hd ?d = hd (strip t)" using assms by (metis hd_append2)
  with nd l show ?thesis by simp
qed

subsection \<open>The invariant of the stored Conversation\<close>

lemma stored_ok_append:
  "stored_ok c \<Longrightarrow> role a = ''user'' \<or> role a = ''assistant'' \<Longrightarrow> stored_ok (c @ [a])"
  by (cases c) (auto simp: stored_ok_def)

lemma stored_ok_roles:
  "stored_ok c \<Longrightarrow> t \<in> set c \<Longrightarrow> role t = ''user'' \<or> role t = ''assistant''"
  by (cases c) (auto simp: stored_ok_def greeting_def list_all_iff)

lemma stored_ok_greeting: "stored_ok [greeting]"
  by (simp add: stored_ok_def)

lemma session_ok_api_key: "session_ok (s\<lparr>api_key := k\<rparr>) = session_ok s"
  by (simp add: session_ok_def split: option.splits)

lemma init_messages_ok: "session_ok s \<Longrightarrow> session_ok (snd (init_messages s))"
  by (auto simp: session_ok_def init_messages_def new_list_def stored_ok_greeting
      split: option.splits)

lemma submit_ok:
  assumes "session_messages s = Some r" and "session_ok s"
  shows "session_ok (submit svc S r s)"
proof -
  have r: "r < next_ref s" and ok: "stored_ok (list_objs s r)"
    using assms by (simp_all add: session_ok_def)
  have "stored_ok (list_objs s r @ [\<lparr>role = ''user'', content = S\<rparr>])"
    using ok by (rule stored_ok_append) simp
  then have "stored_ok ((list_objs s r @ [\<lparr>role = ''user'', content = S\<rparr>])
      @ [\<lparr>role = ''assistant'',
          content = fst (generate_response svc S r
                           (append_turn r \<lparr>role = ''user'', content = S\<rparr> s))\<rparr>])"
    by (rule stored_ok_append) simp
  then show ?thesis
    using r assms(1)
    by (simp add: session_ok_def submit_session submit_next_ref submit_list_objs [OF r])
qed

lemma chatbot_section_ok:
  assumes "session_ok s"
  shows "session_ok (snd (chatbot_section svc inp s))"
proof -
  have ok: "session_ok (snd (init_messages s))" using assms by (rule init_messages_ok)
  show ?thesis
  proof (cases "inp = None \<or> inp = Some []")
    case True
    then show ?thesis using ok by (simp add: chatbot_section_idle)
  next
    case False
    then obtain S where S: "inp = Some S" "S \<noteq> []" by auto
    then show ?thesis
      using submit_ok [OF init_messages_session ok] by (simp add: chatbot_section_submit)
  qed
qed

lemma run_script_ok: "session_ok s \<Longrightarrow> session_ok (snd (run_script i s))"
proof -
  assume ok: "session_ok s"
  obtain k where k: "snd (resolve_api_key (environ i) (secrets i) s) = s\<lparr>api_key := k\<rparr>"
    using resolve_api_key_state by blast
  have "session_ok (s\<lparr>api_key := k\<rparr>)" using ok by (simp add: session_ok_api_key)
  then show ?thesis
    by (simp add: run_script_snd page_body_snd k chatbot_section_ok)
qed

lemma run_many_ok: "session_ok s \<Longrightarrow> session_ok (run_many inps s)"
  by (induction inps arbitrary: s) (simp_all add: run_script_ok)

subsection \<open>The example states\<close>

lemma seeded_simps:
  "next_ref seeded = 1" "session_messages seeded = Some 0" "list_objs seeded 0 = [greeting]"
  "sent seeded = []" "api_key seeded = None"
  by (simp_all add: seeded_def fresh_def init_messages_def new_list_def)

lemma seeded_allocated: "session_allocated seeded"
  by (simp add: session_allocated_def seeded_simps)

lemma seeded_conversation: "conversation seeded = [greeting]"
  by (simp add: conversation_def seeded_simps)

lemma seeded_init: "init_messages seeded = (0, seeded)"
  by (simp add: init_messages_existing seeded_simps)

section \<open>The claims\<close>

text \<open>
  C1. For every history of N turns and every user string S, the message list that
  \<^verbatim>\<open>generate_response\<close> builds and sends has length N + 2, its element 0 is the fixed system
  turn, and its last element is the user turn with content S. (The list is the system turn,
  the history, the user turn, in this order.)
\<close>

theorem generate_response_request_shape:
  "h < next_ref s \<Longrightarrow>
   (let request = last (sent (snd (generate_response svc S h s))) in
      sent (snd (generate_response svc S h s)) = sent s @ [request]
      \<and> length request = length (list_objs s h) + 2
      \<and> request ! 0 = system_turn
      \<and> last request = \<lparr>role = ''user'', content = S\<rparr>
      \<and> request = system_turn # list_objs s h @ [\<lparr>role = ''user'', content = S\<rparr>])"
  by (simp add: generate_response_sent Let_def)

theorem generate_response_request_shape_witness:
  "0 < next_ref seeded
   \<and> (let request = last (sent (snd (generate_response hi_there_stub ''Hello'' 0 seeded))) in
      sent (snd (generate_response hi_there_stub ''Hello'' 0 seeded)) = sent seeded @ [request]
      \<and> length request = length (list_objs seeded 0) + 2
      \<and> request ! 0 = system_turn
      \<and> last request = \<lparr>role = ''user'', content = ''Hello''\<rparr>
      \<and> request = system_turn # list_objs seeded 0 @ [\<lparr>role = ''user'', content = ''Hello''\<rparr>])"
proof
  show allocated: "0 < next_ref seeded" by (simp add: seeded_simps)
  show "let request = last (sent (snd (generate_response hi_there_stub ''Hello'' 0 seeded))) in
      sent (snd (generate_response hi_there_stub ''Hello'' 0 seeded)) = sent seeded @ [request]
      \<and> length request = length (list_objs seeded 0) + 2
      \<and> request ! 0 = system_turn
      \<and> last request = \<lparr>role = ''user'', content = ''Hello''\<rparr>
      \<and> request = system_turn # list_objs seeded 0 @ [\<lparr>role = ''user'', content = ''Hello''\<rparr>]"
    by (rule generate_response_request_shape [OF allocated])
qed

text \<open>
  C2. If the completion call raises an exception \<open>e\<close>, then \<^verbatim>\<open>generate_response\<close> returns
  (it does not raise) the text \<^verbatim>\<open>Error: \<close> followed by the message of \<open>e\<close>, which contains
  \<^verbatim>\<open>Error:\<close>; and when the call is the one of the chatbot flow (the state is the one after
  the user's turn was appended), the Conversation gains the user's turn and exactly one
  assistant turn, which holds that text.
\<close>

theorem generate_response_error_text:
  assumes "h < next_ref s"
    and "svc (api_key s) (system_turn # list_objs s h @ [\<lparr>role = ''user'', content = p\<rparr>])
           = Inl e"
  shows "fst (generate_response svc p h s) = ''Error: '' @ str e
     \<and> sublist ''Error:'' (fst (generate_response svc p h s))
     \<and> (\<forall>s0. session_messages s0 = Some h \<and> p \<noteq> []
              \<and> s = append_turn h \<lparr>role = ''user'', content = p\<rparr> s0 \<longrightarrow>
           conversation (snd (chatbot_section svc (Some p) s0)) =
             conversation s0 @ [\<lparr>role = ''user'', content = p\<rparr>,
                                \<lparr>role = ''assistant'', content = ''Error: '' @ str e\<rparr>])"
proof -
  have failed: "fst (generate_response svc p h s) = ''Error: '' @ str e"
    using assms by (simp add: generate_response_fst)
  have "prefix ''Error:'' (''Error: '' @ str e)" by simp
  then have sub: "sublist ''Error:'' (fst (generate_response svc p h s))"
    unfolding failed by (rule prefix_imp_sublist)
  have flow: "conversation (snd (chatbot_section svc (Some p) s0)) =
      conversation s0 @ [\<lparr>role = ''user'', content = p\<rparr>,
                         \<lparr>role = ''assistant'', content = ''Error: '' @ str e\<rparr>]"
    if s0: "session_messages s0 = Some h" and p: "p \<noteq> []"
      and s: "s = append_turn h \<lparr>role = ''user'', content = p\<rparr> s0" for s0
  proof -
    have "h < next_ref s0" using assms(1) by (simp add: s append_turn_def)
    then have alloc: "session_allocated s0" using s0 by (simp add: session_allocated_def)
    have init: "init_messages s0 = (h, s0)" using s0 by (rule init_messages_existing)
    show ?thesis
      using chatbot_section_conversation [OF alloc p, of svc] failed
      by (simp add: init s [symmetric])
  qed
  from failed sub flow show ?thesis by blast
qed

theorem generate_response_error_text_witness:
  "0 < next_ref (append_turn 0 \<lparr>role = ''user'', content = ''Hello''\<rparr> seeded)
   \<and> failing_stub (ServiceError ''boom'')
        (api_key (append_turn 0 \<lparr>role = ''user'', content = ''Hello''\<rparr> seeded))
        (system_turn # list_objs (append_turn 0 \<lparr>role = ''user'', content = ''Hello''\<rparr> seeded) 0
           @ [\<lparr>role = ''user'', content = ''Hello''\<rparr>])
      = Inl (ServiceError ''boom'')
   \<and> fst (generate_response (failing_stub (ServiceError ''boom'')) ''Hello'' 0
            (append_turn 0 \<lparr>role = ''user'', content = ''Hello''\<rparr> seeded)) = ''Error: boom''
   \<and> sublist ''Error:'' (fst (generate_response (failing_stub (ServiceError ''boom'')) ''Hello'' 0
            (append_turn 0 \<lparr>role = ''user'', content = ''Hello''\<rparr> seeded)))
   \<and> conversation (snd (chatbot_section (failing_stub (ServiceError ''boom'')) (Some ''Hello'')
         seeded)) =
       [greeting, \<lparr>role = ''user'', content = ''Hello''\<rparr>,
        \<lparr>role = ''assistant'', content = ''Error: boom''\<rparr>]"
proof -
  let ?s = "append_turn 0 \<lparr>role = ''user'', content = ''Hello''\<rparr> seeded"
  let ?svc = "failing_stub (ServiceError ''boom'')"
  have allocated: "0 < next_ref ?s" by (simp add: append_turn_def seeded_simps)
  have raises: "?svc (api_key ?s)
      (system_turn # list_objs ?s 0 @ [\<lparr>role = ''user'', content = ''Hello''\<rparr>])
      = Inl (ServiceError ''boom'')"
    by (simp add: failing_stub_def)
  note result = generate_response_error_text
    [where h = 0 and s = "?s" and svc = "?svc" and p = "''Hello''" and e = "ServiceError ''boom''",
      OF allocated raises]
  from result have "fst (generate_response ?svc ''Hello'' 0 ?s) = ''Error: boom''" by simp
  moreover from result have "sublist ''Error:'' (fst (generate_response ?svc ''Hello'' 0 ?s))"
    by blast
  moreover from result have "conversation (snd (chatbot_section ?svc (Some ''Hello'') seeded)) =
      conversation seeded @ [\<lparr>role = ''user'', content = ''Hello''\<rparr>,
                             \<lparr>role = ''assistant'', content = ''Error: '' @ str (ServiceError ''boom'')\<rparr>]"
    by (simp add: seeded_simps)
  ultimately show ?thesis
    using allocated raises by (simp add: seeded_conversation)
qed

text \<open>
  C3. The chatbot flow appends the user's message S to the Conversation before it calls
  \<^verbatim>\<open>generate_response\<close> with that same list as the history, so the message list sent to the
  completion service is the system turn, the Conversation as it was, and then the user turn
  with content S twice.
\<close>

theorem chatbot_request_repeats_user_turn:
  assumes "session_allocated s" and "S \<noteq> []"
  shows "sent (snd (chatbot_section svc (Some S) s)) =
           sent s @ [system_turn # conversation (snd (init_messages s))
                       @ [\<lparr>role = ''user'', content = S\<rparr>, \<lparr>role = ''user'', content = S\<rparr>]]"
  using assms(2) init_messages_allocated [OF assms(1)]
  by (simp add: chatbot_section_submit submit_sent init_messages_conversation init_messages_sent)

theorem chatbot_request_repeats_user_turn_witness:
  "session_allocated seeded \<and> ''Hello'' \<noteq> []
   \<and> sent (snd (chatbot_section hi_there_stub (Some ''Hello'') seeded)) =
       [[system_turn, greeting, \<lparr>role = ''user'', content = ''Hello''\<rparr>,
         \<lparr>role = ''user'', content = ''Hello''\<rparr>]]"
proof -
  have nonempty: "''Hello'' \<noteq> []" by simp
  show ?thesis
    using chatbot_request_repeats_user_turn [OF seeded_allocated nonempty, of hi_there_stub]
    by (simp add: seeded_allocated seeded_init seeded_conversation seeded_simps)
qed



text \<open>
  C5. In every state that a new session reaches, through any number of runs of the script
  with any inputs and any behaviour of the completion service, every turn stored in the
  Conversation has the role user or assistant; the system turn is not among them; and once
  the Conversation exists it starts with the seeded greeting of the assistant.
\<close>

theorem conversation_roles:
  assumes "session_messages s = None"
  shows "(\<forall>t \<in> set (conversation (run_many inps s)). role t = ''user'' \<or> role t = ''assistant'')
     \<and> system_turn \<notin> set (conversation (run_many inps s))
     \<and> (session_messages (run_many inps s) \<noteq> None \<longrightarrow>
          (\<exists>rest. conversation (run_many inps s) = greeting # rest))"
proof -
  have "session_ok s" using assms by (simp add: session_ok_def)
  then have ok: "session_ok (run_many inps s)" by (rule run_many_ok)
  show ?thesis
  proof (cases "session_messages (run_many inps s)")
    case None
    then show ?thesis by (simp add: conversation_def)
  next
    case (Some r)
    then have c: "conversation (run_many inps s) = list_objs (run_many inps s) r"
      by (simp add: conversation_def)
    have st: "stored_ok (conversation (run_many inps s))"
      using ok Some c by (simp add: session_ok_def)
    then have roles: "\<forall>t \<in> set (conversation (run_many inps s)).
        role t = ''user'' \<or> role t = ''assistant''"
      using stored_ok_roles by blast
    moreover have "system_turn \<notin> set (conversation (run_many inps s))"
    proof
      assume "system_turn \<in> set (conversation (run_many inps s))"
      with roles have "role system_turn = ''user'' \<or> role system_turn = ''assistant''" by blast
      then show False by (simp add: system_turn_def)
    qed
    moreover have "\<exists>rest. conversation (run_many inps s) = greeting # rest"
      using st by (cases "conversation (run_many inps s)") (simp_all add: stored_ok_def)
    ultimately show ?thesis by blast
  qed
qed

theorem conversation_roles_witness:
  "session_messages fresh = None
   \<and> conversation (run_many [visit, hello] fresh) =
       [greeting, \<lparr>role = ''user'', content = ''Hello''\<rparr>,
        \<lparr>role = ''assistant'', content = ''Hi there''\<rparr>]
   \<and> list_all (\<lambda>t. role t = ''user'' \<or> role t = ''assistant'')
        (conversation (run_many [visit, hello] fresh))
   \<and> system_turn \<notin> set (conversation (run_many [visit, hello] fresh))"
proof -
  have new: "session_messages fresh = None" by (simp add: fresh_def)
  have run: "conversation (run_many [visit, hello] fresh) =
       [greeting, \<lparr>role = ''user'', content = ''Hello''\<rparr>,
        \<lparr>role = ''assistant'', content = ''Hi there''\<rparr>]"
    by code_simp
  show ?thesis
    using conversation_roles [OF new, of "[visit, hello]"] new run
    by (simp add: list_all_iff)
qed

text \<open>
  C6. Processing one user message appends the user's turn and then one assistant turn to the
  Conversation: its length grows by exactly 2, and every turn stored before is unchanged and
  keeps its position. The Conversation before is the one the page shows, that is after the
  lazy initialisation, which leaves an existing Conversation as it is.
\<close>

theorem submit_appends_two:
  assumes "session_allocated s" and "S \<noteq> []"
  shows "(let before = conversation (snd (init_messages s));
              after = conversation (snd (chatbot_section svc (Some S) s))
          in length after = length before + 2
           \<and> (\<forall>n < length before. after ! n = before ! n)
           \<and> after ! length before = \<lparr>role = ''user'', content = S\<rparr>
           \<and> role (after ! (length before + 1)) = ''assistant''
           \<and> take (length before) after = before)
       \<and> (session_messages s \<noteq> None \<longrightarrow> conversation (snd (init_messages s)) = conversation s)"
proof -
  have "session_messages s \<noteq> None \<longrightarrow> conversation (snd (init_messages s)) = conversation s"
    by (auto simp: init_messages_existing)
  then show ?thesis
    by (simp add: chatbot_section_conversation [OF assms] Let_def nth_append)
qed

theorem submit_appends_two_witness:
  "session_allocated seeded \<and> ''Hello'' \<noteq> []
   \<and> conversation (snd (init_messages seeded)) = conversation seeded
   \<and> length (conversation (snd (chatbot_section hi_there_stub (Some ''Hello'') seeded))) =
       length (conversation seeded) + 2
   \<and> take (length (conversation seeded))
        (conversation (snd (chatbot_section hi_there_stub (Some ''Hello'') seeded))) =
       conversation seeded
   \<and> conversation (snd (chatbot_section hi_there_stub (Some ''Hello'') seeded))
        ! length (conversation seeded) = \<lparr>role = ''user'', content = ''Hello''\<rparr>"
proof -
  have nonempty: "''Hello'' \<noteq> []" by simp
  show ?thesis
    using submit_appends_two [OF seeded_allocated nonempty, of hi_there_stub]
    by (simp add: Let_def seeded_allocated seeded_init)
qed

text \<open>
  C7. The session store is initialised lazily: when the session has no Conversation, the
  initialisation sets it to the seeded greeting alone; when it has one, the initialisation
  changes nothing. A run of the page without a submitted message therefore leaves an
  existing Conversation as it is, and seeds a missing one only in the chatbot section.
\<close>

theorem session_lazy_init:
  "(case session_messages s of
      None \<Rightarrow> conversation (snd (init_messages s)) = [greeting]
    | Some r \<Rightarrow> init_messages s = (r, s))
   \<and> conversation (snd (run_script (i\<lparr>user_input := None\<rparr>) s)) =
       (if app_mode i = ''Chatbot'' \<and> session_messages s = None then [greeting]
        else conversation s)"
  by (simp add: run_script_conversation_idle init_messages_first init_messages_existing
      split: option.splits)

theorem session_lazy_init_witness:
  "conversation (snd (init_messages fresh)) = [greeting]
   \<and> conversation (snd (run_script (visit\<lparr>user_input := None\<rparr>) fresh)) = [greeting]
   \<and> init_messages chatted = (0, chatted)
   \<and> conversation (snd (run_script (visit\<lparr>user_input := None\<rparr>) chatted)) =
       conversation chatted"
proof -
  have new: "session_messages fresh = None" by (simp add: fresh_def)
  have old: "session_messages chatted = Some 0" by code_simp
  have mode: "app_mode visit = ''Chatbot''" by (simp add: visit_def)
  show ?thesis
    using session_lazy_init [of fresh visit] session_lazy_init [of chatted visit]
    by (simp add: new old mode)
qed

text \<open>
  C8. When the completion call succeeds, \<^verbatim>\<open>generate_response\<close> returns the content of the
  first choice of the response with the surrounding whitespace stripped: the content is
  whitespace, the returned text, whitespace, and the returned text neither starts nor ends
  with whitespace.
\<close>

theorem generate_response_first_choice_stripped:
  assumes "h < next_ref s"
    and "svc (api_key s) (system_turn # list_objs s h @ [\<lparr>role = ''user'', content = p\<rparr>])
           = Inr resp"
    and "choices resp = c # cs"
    and "message_content (message c) = Some t"
  shows "fst (generate_response svc p h s) = strip t
     \<and> t = takeWhile isspace t @ strip t @ rev (takeWhile isspace (rev (dropWhile isspace t)))
     \<and> (strip t \<noteq> [] \<longrightarrow> \<not> isspace (hd (strip t)) \<and> \<not> isspace (last (strip t)))"
proof -
  have "fst (generate_response svc p h s) = strip t"
    using assms by (simp add: generate_response_fst first_choice_text_def)
  then show ?thesis
    using strip_decompose [of t] strip_ends [of t] by blast
qed

theorem generate_response_first_choice_stripped_witness:
  "0 < next_ref seeded
   \<and> padded_stub (api_key seeded)
        (system_turn # list_objs seeded 0 @ [\<lparr>role = ''user'', content = ''Hello''\<rparr>])
      = Inr (Response [Choice (CompletionMessage (Some (''  Hi there '' @ [CHR 0x0A])))])
   \<and> choices (Response [Choice (CompletionMessage (Some (''  Hi there '' @ [CHR 0x0A])))])
      = Choice (CompletionMessage (Some (''  Hi there '' @ [CHR 0x0A]))) # []
   \<and> message_content (message (Choice (CompletionMessage (Some (''  Hi there '' @ [CHR 0x0A])))))
      = Some (''  Hi there '' @ [CHR 0x0A])
   \<and> fst (generate_response padded_stub ''Hello'' 0 seeded) = ''Hi there''"
proof -
  have allocated: "0 < next_ref seeded" by (simp add: seeded_simps)
  have answers: "padded_stub (api_key seeded)
        (system_turn # list_objs seeded 0 @ [\<lparr>role = ''user'', content = ''Hello''\<rparr>])
      = Inr (Response [Choice (CompletionMessage (Some (''  Hi there '' @ [CHR 0x0A])))])"
    by (simp add: padded_stub_def)
  have first: "choices (Response [Choice (CompletionMessage (Some (''  Hi there '' @ [CHR 0x0A])))])
      = Choice (CompletionMessage (Some (''  Hi there '' @ [CHR 0x0A]))) # []"
    by simp
  have filled: "message_content (message (Choice (CompletionMessage (Some (''  Hi there '' @ [CHR 0x0A])))))
      = Some (''  Hi there '' @ [CHR 0x0A])"
    by simp
  have stripped: "strip (''  Hi there '' @ [CHR 0x0A]) = ''Hi there''"
    by (simp add: strip_def isspace_def)
  show ?thesis
    using generate_response_first_choice_stripped
      [where h = 0 and s = seeded and svc = padded_stub and p = "''Hello''"
         and resp = "Response [Choice (CompletionMessage (Some (''  Hi there '' @ [CHR 0x0A])))]"
         and c = "Choice (CompletionMessage (Some (''  Hi there '' @ [CHR 0x0A])))" and cs = "[]"
         and t = "''  Hi there '' @ [CHR 0x0A]",
        OF allocated answers first filled]
      allocated answers stripped
    by simp
qed

text \<open>
  C9. End to end: from the freshly seeded Conversation, which holds the greeting only,
  submitting \<^verbatim>\<open>Hello\<close> with the completion call stubbed to return \<^verbatim>\<open>Hi there\<close> leaves the
  Conversation equal to the greeting, the user's \<^verbatim>\<open>Hello\<close>, the assistant's \<^verbatim>\<open>Hi there\<close>.
\<close>

theorem hello_end_to_end:
  assumes "session_messages s = Some r" and "r < next_ref s" and "list_objs s r = [greeting]"
  shows "conversation (snd (run_script
           \<lparr>environ = env, secrets = sec, app_mode = ''Chatbot'', user_input = Some ''Hello'',
            create = hi_there_stub\<rparr> s)) =
         [greeting, \<lparr>role = ''user'', content = ''Hello''\<rparr>,
          \<lparr>role = ''assistant'', content = ''Hi there''\<rparr>]"
proof -
  obtain k where k: "snd (resolve_api_key env sec s) = s\<lparr>api_key := k\<rparr>"
    using resolve_api_key_state by blast
  let ?s = "s\<lparr>api_key := k\<rparr>"
  have alloc: "session_allocated ?s" using assms by (simp add: session_allocated_def)
  have init: "init_messages ?s = (r, ?s)" using assms(1) by (simp add: init_messages_existing)
  have r1: "r < next_ref (append_turn r \<lparr>role = ''user'', content = ''Hello''\<rparr> ?s)"
    using assms(2) by (simp add: append_turn_def)
  have stripped: "strip ''Hi there'' = ''Hi there''"
    by (simp add: strip_def isspace_def)
  have reply: "fst (generate_response hi_there_stub ''Hello'' r
                 (append_turn r \<lparr>role = ''user'', content = ''Hello''\<rparr> ?s)) = ''Hi there''"
    by (simp add: generate_response_fst [OF r1] hi_there_stub_def first_choice_text_def stripped)
  have "conversation (snd (chatbot_section hi_there_stub (Some ''Hello'') ?s)) =
      conversation ?s @ [\<lparr>role = ''user'', content = ''Hello''\<rparr>,
                         \<lparr>role = ''assistant'', content = ''Hi there''\<rparr>]"
    using chatbot_section_conversation [OF alloc, of "''Hello''" hi_there_stub]
    by (simp add: init reply)
  moreover have "conversation ?s = [greeting]"
    using assms by (simp add: conversation_def)
  ultimately show ?thesis
    by (simp add: run_script_snd page_body_snd k)
qed

theorem hello_end_to_end_witness:
  "session_messages seeded = Some 0 \<and> 0 < next_ref seeded \<and> list_objs seeded 0 = [greeting]
   \<and> conversation (snd (run_script
        \<lparr>environ = Map.empty, secrets = \<lparr>flat = Map.empty, nested = Map.empty\<rparr>,
         app_mode = ''Chatbot'', user_input = Some ''Hello'', create = hi_there_stub\<rparr> seeded)) =
       [greeting, \<lparr>role = ''user'', content = ''Hello''\<rparr>,
        \<lparr>role = ''assistant'', content = ''Hi there''\<rparr>]"
proof -
  have session: "session_messages seeded = Some 0" by (simp add: seeded_simps)
  have allocated: "0 < next_ref seeded" by (simp add: seeded_simps)
  have only: "list_objs seeded 0 = [greeting]" by (simp add: seeded_simps)
  show ?thesis
    using hello_end_to_end [OF session allocated only, of Map.empty
        "\<lparr>flat = Map.empty, nested = Map.empty\<rparr>"] session allocated only
    by simp
qed

text \<open>
  C10. \<^verbatim>\<open>generate_response\<close> does not change the list it is given as the history: it builds
  a new list object for the request, so the history, like every other list that existed
  before the call, holds the same turns after the call, whether the completion call
  succeeds or raises.
\<close>

theorem generate_response_history_unchanged:
  "h < next_ref s \<Longrightarrow>
   list_objs (snd (generate_response svc p h s)) h = list_objs s h
   \<and> (\<forall>r < next_ref s. list_objs (snd (generate_response svc p h s)) r = list_objs s r)"
  by (simp add: generate_response_list_objs)

theorem generate_response_history_unchanged_witness:
  "0 < next_ref seeded
   \<and> list_objs (snd (generate_response hi_there_stub ''Hello'' 0 seeded)) 0 = [greeting]
   \<and> list_objs (snd (generate_response (failing_stub IndexError) ''Hello'' 0 seeded)) 0 = [greeting]"
proof -
  have allocated: "0 < next_ref seeded" by (simp add: seeded_simps)
  show ?thesis
    using generate_response_history_unchanged [OF allocated, of hi_there_stub "''Hello''"]
      generate_response_history_unchanged [OF allocated, of "failing_stub IndexError" "''Hello''"]
      allocated
    by (simp add: seeded_simps)
qed

end
